theory Spec2Isabelle
  imports Complex_Main
begin

section \<open>Micro-segmentation manager (src/security/micro_segmentation.py)\<close>

text \<open>
  The ten members of the enum \<^verbatim>\<open>SecurityZone\<close>. Every member of a Python \<^verbatim>\<open>Enum\<close> is
  truthy, so \<^verbatim>\<open>not src_zone\<close> holds exactly when the dictionary lookup returned \<^verbatim>\<open>None\<close>.
\<close>

datatype SecurityZone =
    EXTERNAL | DMZ | CLOUD_GATEWAY | IOT_TRUSTED | IOT_UNTRUSTED
  | IOT_QUARANTINE | MANAGEMENT | DATA_PROCESSING | AI_ANALYTICS | ADMIN

text \<open>The order in which \<^verbatim>\<open>for zone in SecurityZone\<close> visits the members.\<close>

definition all_zones :: "SecurityZone list" where
  "all_zones = [EXTERNAL, DMZ, CLOUD_GATEWAY, IOT_TRUSTED, IOT_UNTRUSTED,
                IOT_QUARANTINE, MANAGEMENT, DATA_PROCESSING, AI_ANALYTICS, ADMIN]"

text \<open>\<^verbatim>\<open>zone.value\<close>\<close>

fun zone_value :: "SecurityZone \<Rightarrow> string" where
  "zone_value EXTERNAL = ''external''"
| "zone_value DMZ = ''dmz''"
| "zone_value CLOUD_GATEWAY = ''cloud_gateway''"
| "zone_value IOT_TRUSTED = ''iot_trusted''"
| "zone_value IOT_UNTRUSTED = ''iot_untrusted''"
| "zone_value IOT_QUARANTINE = ''iot_quarantine''"
| "zone_value MANAGEMENT = ''management''"
| "zone_value DATA_PROCESSING = ''data_processing''"
| "zone_value AI_ANALYTICS = ''ai_analytics''"
| "zone_value ADMIN = ''admin''"

text \<open>The dataclass \<^verbatim>\<open>NetworkPolicy\<close>; \<^verbatim>\<open>action\<close> is the string "allow" or "deny".\<close>

record NetworkPolicy =
  name :: string
  source_zone :: SecurityZone
  dest_zone :: SecurityZone
  allowed_protocols :: "string list"
  allowed_ports :: "int list"
  action :: string
  priority :: int
  enabled :: bool

text \<open>\<^verbatim>\<open>NetworkPolicy.matches\<close>: port 0 and protocol "*" are wildcards of the policy.\<close>

definition matches :: "NetworkPolicy \<Rightarrow> SecurityZone \<Rightarrow> SecurityZone \<Rightarrow> string \<Rightarrow> int \<Rightarrow> bool" where
  "matches p src dst protocol port \<longleftrightarrow>
     source_zone p = src \<and>
     dest_zone p = dst \<and>
     (protocol \<in> set (allowed_protocols p) \<or> ''*'' \<in> set (allowed_protocols p)) \<and>
     (port \<in> set (allowed_ports p) \<or> 0 \<in> set (allowed_ports p))"

text \<open>
  One dictionary appended to \<^verbatim>\<open>traffic_log\<close>; the fields are the dictionary's keys
  (prefixed, since \<^verbatim>\<open>action\<close> is a field of the policy already).
\<close>

record TrafficLogEntry =
  log_src_device :: string
  log_dst_device :: string
  log_src_zone :: string
  log_dst_zone :: string
  log_protocol :: string
  log_port :: int
  log_policy :: string
  log_action :: string
  log_allowed :: bool

text \<open>The dictionary \<^verbatim>\<open>self.metrics\<close> of the manager, one field per key.\<close>

record seg_metrics =
  packets_allowed :: int
  packets_denied :: int
  zone_violations :: int
  lateral_movement_blocked :: int

text \<open>
  The state of a \<^verbatim>\<open>MicroSegmentationManager\<close>. Calls of the logger write to an
  external log and change nothing the manager reads back; they are left out.
\<close>

record MicroSegmentationManager =
  device_zones :: "string \<rightharpoonup> SecurityZone"
  policies :: "NetworkPolicy list"
  traffic_log :: "TrafficLogEntry list"
  metrics :: seg_metrics

definition management_policy :: "SecurityZone \<Rightarrow> NetworkPolicy" where
  "management_policy zone =
     \<lparr>name = ''management_to_'' @ zone_value zone,
      source_zone = MANAGEMENT, dest_zone = zone,
      allowed_protocols = [''ssh'', ''https''], allowed_ports = [22, 443],
      action = ''allow'', priority = 90, enabled = True\<rparr>"

definition lateral_deny_policy :: "SecurityZone \<Rightarrow> SecurityZone \<Rightarrow> NetworkPolicy" where
  "lateral_deny_policy src_zone dst_zone =
     \<lparr>name = ''deny_'' @ zone_value src_zone @ ''_to_'' @ zone_value dst_zone,
      source_zone = src_zone, dest_zone = dst_zone,
      allowed_protocols = [''*''], allowed_ports = [0],
      action = ''deny'', priority = 200, enabled = True\<rparr>"

definition quarantine_deny_policy :: "SecurityZone \<Rightarrow> NetworkPolicy" where
  "quarantine_deny_policy zone =
     \<lparr>name = ''deny_quarantine_to_'' @ zone_value zone,
      source_zone = IOT_QUARANTINE, dest_zone = zone,
      allowed_protocols = [''*''], allowed_ports = [0],
      action = ''deny'', priority = 300, enabled = True\<rparr>"

text \<open>
  \<^verbatim>\<open>_initialize_default_policies\<close> appends to \<^verbatim>\<open>self.policies\<close>, in this order: the four
  pipeline rules, management to every zone but external and quarantine, admin to
  management, the two lateral-movement denies, and the nine quarantine denies.
\<close>

definition initialize_default_policies :: "NetworkPolicy list \<Rightarrow> NetworkPolicy list" where
  "initialize_default_policies ps =
     ps @
     [\<lparr>name = ''iot_trusted_to_gateway'',
       source_zone = IOT_TRUSTED, dest_zone = CLOUD_GATEWAY,
       allowed_protocols = [''mqtt'', ''coap'', ''https''],
       allowed_ports = [1883, 5683, 8883, 443],
       action = ''allow'', priority = 100, enabled = True\<rparr>,
      \<lparr>name = ''gateway_to_processing'',
       source_zone = CLOUD_GATEWAY, dest_zone = DATA_PROCESSING,
       allowed_protocols = [''https'', ''grpc''],
       allowed_ports = [443, 50051],
       action = ''allow'', priority = 100, enabled = True\<rparr>,
      \<lparr>name = ''processing_to_ai'',
       source_zone = DATA_PROCESSING, dest_zone = AI_ANALYTICS,
       allowed_protocols = [''https'', ''grpc''],
       allowed_ports = [443, 50051, 8080],
       action = ''allow'', priority = 100, enabled = True\<rparr>,
      \<lparr>name = ''ai_to_processing'',
       source_zone = AI_ANALYTICS, dest_zone = DATA_PROCESSING,
       allowed_protocols = [''https''],
       allowed_ports = [443],
       action = ''allow'', priority = 100, enabled = True\<rparr>] @
     map management_policy
       (filter (\<lambda>zone. zone \<notin> set [EXTERNAL, IOT_QUARANTINE]) all_zones) @
     [\<lparr>name = ''admin_to_management'',
       source_zone = ADMIN, dest_zone = MANAGEMENT,
       allowed_protocols = [''ssh'', ''https''],
       allowed_ports = [22, 443],
       action = ''allow'', priority = 95, enabled = True\<rparr>] @
     concat (map (\<lambda>src_zone.
        concat (map (\<lambda>dst_zone.
           if src_zone \<noteq> dst_zone then [lateral_deny_policy src_zone dst_zone] else [])
         [IOT_TRUSTED, IOT_UNTRUSTED]))
      [IOT_TRUSTED, IOT_UNTRUSTED]) @
     map quarantine_deny_policy (filter (\<lambda>zone. zone \<noteq> IOT_QUARANTINE) all_zones)"

text \<open>\<^verbatim>\<open>MicroSegmentationManager.__init__\<close>\<close>

definition new_manager :: MicroSegmentationManager where
  "new_manager =
     \<lparr>device_zones = Map.empty,
      policies = initialize_default_policies [],
      traffic_log = [],
      metrics = \<lparr>packets_allowed = 0, packets_denied = 0,
                 zone_violations = 0, lateral_movement_blocked = 0\<rparr>\<rparr>"

definition assign_device_zone :: "MicroSegmentationManager \<Rightarrow> string \<Rightarrow> SecurityZone \<Rightarrow> MicroSegmentationManager" where
  "assign_device_zone m device zone = m\<lparr>device_zones := (device_zones m)(device \<mapsto> zone)\<rparr>"

definition quarantine_device :: "MicroSegmentationManager \<Rightarrow> string \<Rightarrow> MicroSegmentationManager" where
  "quarantine_device m device = m\<lparr>device_zones := (device_zones m)(device \<mapsto> IOT_QUARANTINE)\<rparr>"

definition restore_device :: "MicroSegmentationManager \<Rightarrow> string \<Rightarrow> SecurityZone \<Rightarrow> MicroSegmentationManager" where
  "restore_device m device zone =
     (if device_zones m device = Some IOT_QUARANTINE
      then m\<lparr>device_zones := (device_zones m)(device \<mapsto> zone)\<rparr>
      else m)"

definition remove_policy :: "MicroSegmentationManager \<Rightarrow> string \<Rightarrow> MicroSegmentationManager" where
  "remove_policy m policy_name = m\<lparr>policies := filter (\<lambda>p. name p \<noteq> policy_name) (policies m)\<rparr>"

definition add_policy :: "MicroSegmentationManager \<Rightarrow> NetworkPolicy \<Rightarrow> MicroSegmentationManager" where
  "add_policy m policy = m\<lparr>policies := policies m @ [policy]\<rparr>"

text \<open>
  The list comprehension of \<^verbatim>\<open>evaluate_traffic\<close>. Python's \<^verbatim>\<open>sorted\<close> is stable, also
  with \<^verbatim>\<open>reverse=True\<close>: policies come by descending priority, and policies of one
  priority keep the order of \<^verbatim>\<open>self.policies\<close>. \<open>sort_key\<close> on the negated priority
  is that order.
\<close>

definition matching_policies :: "NetworkPolicy list \<Rightarrow> SecurityZone \<Rightarrow> SecurityZone \<Rightarrow> string \<Rightarrow> int \<Rightarrow> NetworkPolicy list" where
  "matching_policies ps src_zone dst_zone protocol port =
     filter (\<lambda>p. enabled p \<and> matches p src_zone dst_zone protocol port)
       (sort_key (\<lambda>x. - priority x) ps)"

definition incr_packets_allowed :: "seg_metrics \<Rightarrow> seg_metrics" where
  "incr_packets_allowed ms = ms\<lparr>packets_allowed := packets_allowed ms + 1\<rparr>"

definition incr_packets_denied :: "seg_metrics \<Rightarrow> seg_metrics" where
  "incr_packets_denied ms = ms\<lparr>packets_denied := packets_denied ms + 1\<rparr>"

definition incr_zone_violations :: "seg_metrics \<Rightarrow> seg_metrics" where
  "incr_zone_violations ms = ms\<lparr>zone_violations := zone_violations ms + 1\<rparr>"

definition incr_lateral_movement_blocked :: "seg_metrics \<Rightarrow> seg_metrics" where
  "incr_lateral_movement_blocked ms = ms\<lparr>lateral_movement_blocked := lateral_movement_blocked ms + 1\<rparr>"

text \<open>
  \<^verbatim>\<open>evaluate_traffic\<close> returns the verdict (\<open>True\<close> = allowed) and the manager as the
  call leaves it. The three exits of the source are the three branches: a zone is
  unknown; a policy matched; no policy matched.
\<close>

definition evaluate_traffic :: "MicroSegmentationManager \<Rightarrow> string \<Rightarrow> string \<Rightarrow> string \<Rightarrow> int \<Rightarrow> bool \<times> MicroSegmentationManager" where
  "evaluate_traffic m src_device dst_device protocol port =
     (case device_zones m src_device of
        None \<Rightarrow> (False, m\<lparr>metrics := incr_packets_denied (metrics m)\<rparr>)
      | Some src_zone \<Rightarrow>
     (case device_zones m dst_device of
        None \<Rightarrow> (False, m\<lparr>metrics := incr_packets_denied (metrics m)\<rparr>)
      | Some dst_zone \<Rightarrow>
     (case matching_policies (policies m) src_zone dst_zone protocol port of
        policy # _ \<Rightarrow>
          let allowed = (action policy = ''allow'');
              ms = (if allowed then incr_packets_allowed (metrics m)
                    else if src_zone \<in> set [IOT_TRUSTED, IOT_UNTRUSTED] \<and>
                            dst_zone \<in> set [IOT_TRUSTED, IOT_UNTRUSTED]
                         then incr_lateral_movement_blocked (incr_packets_denied (metrics m))
                         else incr_packets_denied (metrics m));
              entry = \<lparr>log_src_device = src_device, log_dst_device = dst_device,
                       log_src_zone = zone_value src_zone, log_dst_zone = zone_value dst_zone,
                       log_protocol = protocol, log_port = port,
                       log_policy = name policy, log_action = action policy,
                       log_allowed = allowed\<rparr>
          in (allowed, m\<lparr>metrics := ms, traffic_log := traffic_log m @ [entry]\<rparr>)
      | [] \<Rightarrow>
          (False, m\<lparr>metrics := incr_zone_violations (incr_packets_denied (metrics m))\<rparr>))))"

section \<open>Zero-trust authenticator (src/security/zero_trust.py)\<close>

text \<open>
  A \<^verbatim>\<open>datetime\<close> is a point of the time line in microseconds, the resolution of
  Python's type, and a \<^verbatim>\<open>timedelta\<close> a number of microseconds; their arithmetic is exact.
  The code reads \<^verbatim>\<open>datetime.utcnow()\<close> several times in one call: every reading is an
  argument of the model, in the order the code makes them, and nothing is assumed about
  how the readings relate. Dates are taken to stay in the range of \<^verbatim>\<open>datetime\<close>.
\<close>

type_synonym datetime = int
type_synonym timedelta = int

text \<open>\<^verbatim>\<open>timedelta(minutes=m)\<close>\<close>

definition minutes :: "int \<Rightarrow> timedelta" where
  "minutes m = m * 60000000"

text \<open>\<^verbatim>\<open>timedelta.total_seconds()\<close>\<close>

definition total_seconds :: "timedelta \<Rightarrow> real" where
  "total_seconds d = real_of_int d / 1000000"

text \<open>
  The dataclass \<^verbatim>\<open>AuthContext\<close>. \<^verbatim>\<open>trust_score\<close> is a Python float; the model computes
  on the reals. The scores the anomaly branch produces from 100.0 (100, 80, 60, ..., 0,
  -20, ...) are integers that binary64 holds exactly, so there the two agree; the time
  decay of the other branch is only modelled up to rounding.
\<close>

record AuthContext =
  device_id :: string
  device_type :: string
  auth_method :: string
  auth_time :: datetime
  expires_at :: datetime
  trust_score :: real
  behavior_normal :: bool
  location_verified :: bool
  certificate_valid :: bool

text \<open>\<^verbatim>\<open>AuthContext.is_expired\<close>, with the reading of the clock as \<open>now\<close>.\<close>

definition is_expired :: "AuthContext \<Rightarrow> datetime \<Rightarrow> bool" where
  "is_expired c now \<longleftrightarrow> now \<ge> expires_at c"

text \<open>\<^verbatim>\<open>AuthContext.is_trusted\<close>\<close>

definition is_trusted :: "AuthContext \<Rightarrow> datetime \<Rightarrow> real \<Rightarrow> bool" where
  "is_trusted c now min_trust_score \<longleftrightarrow>
     \<not> is_expired c now \<and>
     trust_score c \<ge> min_trust_score \<and>
     behavior_normal c \<and>
     certificate_valid c"

text \<open>What the code reads of a loaded X.509 certificate.\<close>

record certificate =
  not_valid_before :: datetime
  not_valid_after :: datetime

text \<open>The dictionary \<^verbatim>\<open>token_payload\<close> handed to \<^verbatim>\<open>jwt.encode\<close>, one field per key.\<close>

record token_payload =
  claim_device_id :: string
  claim_device_type :: string
  claim_auth_method :: string
  claim_iat :: int
  claim_exp :: int
  claim_trust_score :: real

text \<open>
  How a call of \<^verbatim>\<open>jwt.decode\<close> ends: with the payload, with
  \<^verbatim>\<open>ExpiredSignatureError\<close>, with another \<^verbatim>\<open>InvalidTokenError\<close> (bad signature, malformed
  token, ...), or with an exception that is neither (an unusable key).
\<close>

datatype jwt_outcome =
    Decoded token_payload
  | ExpiredSignatureError
  | InvalidTokenError
  | OtherError

text \<open>
  The library functions the authenticator calls (PyJWT, cryptography, the file system,
  the local time zone) are not code of this repository: they are parameters of the model.
  \<open>None\<close> stands for a call that raises. \<^verbatim>\<open>jwt.decode\<close> reads the clock itself to
  judge the expiry: that reading is the last argument of \<open>jwt_decode\<close>.
  \<open>timestamp\<close> is \<^verbatim>\<open>int(d.timestamp())\<close>, which depends on the local time zone for the
  naive datetimes of the code.
\<close>

record libraries =
  jwt_encode :: "token_payload \<Rightarrow> string \<Rightarrow> string option"
  jwt_decode :: "string \<Rightarrow> string \<Rightarrow> datetime \<Rightarrow> jwt_outcome"
  load_pem_x509_certificate :: "string \<Rightarrow> certificate option"
  read_file :: "string \<Rightarrow> string option"
  timestamp :: "datetime \<Rightarrow> int"

text \<open>An exception that leaves the called method.\<close>

datatype error = UncaughtException

text \<open>The dictionary \<^verbatim>\<open>self.metrics\<close> of the authenticator, one field per key.\<close>

record zt_metrics =
  auth_attempts :: int
  auth_success :: int
  auth_failures :: int
  token_refreshes :: int
  trust_violations :: int
  mtls_verifications :: int
  continuous_auth_checks :: int

text \<open>
  The state of a \<^verbatim>\<open>ZeroTrustAuthenticator\<close> (\<^verbatim>\<open>self.metrics\<close> is the field
  \<open>auth_metrics\<close>). Every \<^verbatim>\<open>AuthContext\<close> object is stored under one key only, so its
  in-place updates are updates of the map at that key.
\<close>

record ZeroTrustAuthenticator =
  jwt_secret :: string
  token_lifetime :: timedelta
  ca_cert :: "certificate option"
  auth_contexts :: "string \<rightharpoonup> AuthContext"
  trust_decay_rate :: real
  anomaly_penalty :: real
  auth_metrics :: zt_metrics

text \<open>
  \<^verbatim>\<open>ZeroTrustAuthenticator.__init__\<close>. \<open>token_hex\<close> is what \<^verbatim>\<open>secrets.token_hex(32)\<close>
  returns. An absent or empty \<^verbatim>\<open>ca_cert_path\<close> is falsy and leaves \<^verbatim>\<open>ca_cert\<close> at
  \<^verbatim>\<open>None\<close>; otherwise opening or parsing the file may raise.
\<close>

definition new_authenticator :: "libraries \<Rightarrow> string \<Rightarrow> string option \<Rightarrow> int \<Rightarrow> string option \<Rightarrow> error + ZeroTrustAuthenticator" where
  "new_authenticator libs token_hex jwt_secret_arg token_lifetime_minutes ca_cert_path =
     (let secret = (case jwt_secret_arg of
                      None \<Rightarrow> token_hex
                    | Some s \<Rightarrow> if s = [] then token_hex else s);
          loaded = (case ca_cert_path of
                      None \<Rightarrow> Inr None
                    | Some path \<Rightarrow>
                        if path = [] then Inr None
                        else (case read_file libs path of
                                None \<Rightarrow> Inl UncaughtException
                              | Some pem \<Rightarrow>
                                  (case load_pem_x509_certificate libs pem of
                                     None \<Rightarrow> Inl UncaughtException
                                   | Some cert \<Rightarrow> Inr (Some cert))))
      in case loaded of
           Inl e \<Rightarrow> Inl e
         | Inr ca \<Rightarrow>
             Inr \<lparr>jwt_secret = secret,
                  token_lifetime = minutes token_lifetime_minutes,
                  ca_cert = ca,
                  auth_contexts = Map.empty,
                  trust_decay_rate = 0.1,
                  anomaly_penalty = 20,
                  auth_metrics = \<lparr>auth_attempts = 0, auth_success = 0, auth_failures = 0,
                                   token_refreshes = 0, trust_violations = 0,
                                   mtls_verifications = 0, continuous_auth_checks = 0\<rparr>\<rparr>)"

definition incr_auth_attempts :: "ZeroTrustAuthenticator \<Rightarrow> ZeroTrustAuthenticator" where
  "incr_auth_attempts a =
     a\<lparr>auth_metrics := (auth_metrics a)\<lparr>auth_attempts := auth_attempts (auth_metrics a) + 1\<rparr>\<rparr>"

definition incr_auth_success :: "ZeroTrustAuthenticator \<Rightarrow> ZeroTrustAuthenticator" where
  "incr_auth_success a =
     a\<lparr>auth_metrics := (auth_metrics a)\<lparr>auth_success := auth_success (auth_metrics a) + 1\<rparr>\<rparr>"

definition incr_auth_failures :: "ZeroTrustAuthenticator \<Rightarrow> ZeroTrustAuthenticator" where
  "incr_auth_failures a =
     a\<lparr>auth_metrics := (auth_metrics a)\<lparr>auth_failures := auth_failures (auth_metrics a) + 1\<rparr>\<rparr>"

definition incr_token_refreshes :: "ZeroTrustAuthenticator \<Rightarrow> ZeroTrustAuthenticator" where
  "incr_token_refreshes a =
     a\<lparr>auth_metrics := (auth_metrics a)\<lparr>token_refreshes := token_refreshes (auth_metrics a) + 1\<rparr>\<rparr>"

definition incr_trust_violations :: "ZeroTrustAuthenticator \<Rightarrow> ZeroTrustAuthenticator" where
  "incr_trust_violations a =
     a\<lparr>auth_metrics := (auth_metrics a)\<lparr>trust_violations := trust_violations (auth_metrics a) + 1\<rparr>\<rparr>"

definition incr_mtls_verifications :: "ZeroTrustAuthenticator \<Rightarrow> ZeroTrustAuthenticator" where
  "incr_mtls_verifications a =
     a\<lparr>auth_metrics := (auth_metrics a)\<lparr>mtls_verifications := mtls_verifications (auth_metrics a) + 1\<rparr>\<rparr>"

definition incr_continuous_auth_checks :: "ZeroTrustAuthenticator \<Rightarrow> ZeroTrustAuthenticator" where
  "incr_continuous_auth_checks a =
     a\<lparr>auth_metrics := (auth_metrics a)\<lparr>continuous_auth_checks := continuous_auth_checks (auth_metrics a) + 1\<rparr>\<rparr>"

text \<open>\<^verbatim>\<open>_verify_jwt_credentials\<close>: the credentials carry the key "device_key".\<close>

definition verify_jwt_credentials :: "string \<Rightarrow> (string \<rightharpoonup> string) \<Rightarrow> bool" where
  "verify_jwt_credentials dev credentials \<longleftrightarrow> credentials ''device_key'' \<noteq> None"

text \<open>
  \<^verbatim>\<open>_verify_mtls_certificate\<close>. An absent or empty certificate and an absent CA
  certificate are falsy and end the check before the counter; a certificate that does
  not parse raises inside the \<^verbatim>\<open>try\<close> and gives \<^verbatim>\<open>False\<close>. \<open>now\<close> is the reading
  of the clock for the validity window.
\<close>

definition verify_mtls_certificate :: "libraries \<Rightarrow> ZeroTrustAuthenticator \<Rightarrow> string option \<Rightarrow> datetime \<Rightarrow> bool \<times> ZeroTrustAuthenticator" where
  "verify_mtls_certificate libs a cert_pem now =
     (case cert_pem of
        None \<Rightarrow> (False, a)
      | Some pem \<Rightarrow>
          if pem = [] \<or> ca_cert a = None then (False, a)
          else
            (let a1 = incr_mtls_verifications a
             in case load_pem_x509_certificate libs pem of
                  None \<Rightarrow> (False, a1)
                | Some device_cert \<Rightarrow>
                    if now < not_valid_before device_cert \<or> now > not_valid_after device_cert
                    then (False, a1)
                    else (True, a1)))"

text \<open>\<^verbatim>\<open>_verify_oauth_token\<close>\<close>

definition verify_oauth_token :: "string option \<Rightarrow> bool" where
  "verify_oauth_token token \<longleftrightarrow> (case token of None \<Rightarrow> False | Some t \<Rightarrow> length t > 0)"

text \<open>
  \<^verbatim>\<open>authenticate_device\<close> returns the token, or \<open>None\<close>, and the authenticator as the
  call leaves it. \<open>now_cert\<close> is the reading of the clock in the mTLS check and
  \<open>now_auth\<close> the one that becomes \<^verbatim>\<open>auth_time\<close>. The context is stored before the token
  is encoded; if \<^verbatim>\<open>jwt.encode\<close> raises, the handler of the \<^verbatim>\<open>try\<close> counts a failure and the
  call returns \<open>None\<close>.
\<close>

definition authenticate_device :: "libraries \<Rightarrow> ZeroTrustAuthenticator \<Rightarrow> string \<Rightarrow> string \<Rightarrow> (string \<rightharpoonup> string) \<Rightarrow> string \<Rightarrow> datetime \<Rightarrow> datetime \<Rightarrow> string option \<times> ZeroTrustAuthenticator" where
  "authenticate_device libs a dev dev_type credentials method now_cert now_auth =
     (let a1 = incr_auth_attempts a
      in if method \<noteq> ''jwt'' \<and> method \<noteq> ''mtls'' \<and> method \<noteq> ''oauth''
         then (None, incr_auth_failures a1)
         else
           (let (verified, a2) =
                  (if method = ''jwt'' then (verify_jwt_credentials dev credentials, a1)
                   else if method = ''mtls''
                        then verify_mtls_certificate libs a1 (credentials ''certificate'') now_cert
                        else (verify_oauth_token (credentials ''token''), a1))
            in if \<not> verified then (None, incr_auth_failures a2)
               else
                 (let auth_context =
                        \<lparr>device_id = dev, device_type = dev_type, auth_method = method,
                         auth_time = now_auth, expires_at = now_auth + token_lifetime a2,
                         trust_score = 100, behavior_normal = True,
                         location_verified = True, certificate_valid = True\<rparr>;
                      a3 = a2\<lparr>auth_contexts := (auth_contexts a2)(dev \<mapsto> auth_context)\<rparr>;
                      payload =
                        \<lparr>claim_device_id = dev, claim_device_type = dev_type,
                         claim_auth_method = method,
                         claim_iat = timestamp libs now_auth,
                         claim_exp = timestamp libs (now_auth + token_lifetime a2),
                         claim_trust_score = trust_score auth_context\<rparr>
                  in case jwt_encode libs payload (jwt_secret a3) of
                       None \<Rightarrow> (None, incr_auth_failures a3)
                     | Some token \<Rightarrow> (Some token, incr_auth_success a3))))"

text \<open>
  \<^verbatim>\<open>verify_token\<close>: both handlers return \<^verbatim>\<open>None\<close>; an exception that is not an
  \<^verbatim>\<open>InvalidTokenError\<close> is not caught.
\<close>

definition verify_token :: "libraries \<Rightarrow> ZeroTrustAuthenticator \<Rightarrow> string \<Rightarrow> datetime \<Rightarrow> error + token_payload option" where
  "verify_token libs a token now =
     (case jwt_decode libs token (jwt_secret a) now of
        Decoded payload \<Rightarrow> Inr (Some payload)
      | ExpiredSignatureError \<Rightarrow> Inr None
      | InvalidTokenError \<Rightarrow> Inr None
      | OtherError \<Rightarrow> Inl UncaughtException)"

text \<open>\<^verbatim>\<open>d.get(key, default)\<close> of a Python dictionary.\<close>

definition dict_get :: "('k \<rightharpoonup> 'v) \<Rightarrow> 'k \<Rightarrow> 'v \<Rightarrow> 'v" where
  "dict_get d k dflt = (case d k of None \<Rightarrow> dflt | Some v \<Rightarrow> v)"

text \<open>
  \<^verbatim>\<open>continuous_authentication_check\<close>. \<open>behavior_data\<close> is the dictionary of signals;
  a missing "anomaly_score" counts as 0. The clock is read for the expiry check at entry
  (\<open>now_entry\<close>), for the decay (\<open>now_decay\<close>, read in the branch without anomaly only) and
  in \<^verbatim>\<open>is_trusted\<close> (\<open>now_trust\<close>).
\<close>

definition continuous_authentication_check :: "ZeroTrustAuthenticator \<Rightarrow> string \<Rightarrow> (string \<rightharpoonup> real) \<Rightarrow> datetime \<Rightarrow> datetime \<Rightarrow> datetime \<Rightarrow> bool \<times> ZeroTrustAuthenticator" where
  "continuous_authentication_check a dev behavior_data now_entry now_decay now_trust =
     (let a1 = incr_continuous_auth_checks a
      in case auth_contexts a1 dev of
           None \<Rightarrow> (False, a1)
         | Some context \<Rightarrow>
             if is_expired context now_entry then (False, a1)
             else
               (let anomaly_detected =
                      (dict_get behavior_data ''anomaly_score'' 0 > 0.5);
                    context' =
                      (if anomaly_detected
                       then context\<lparr>trust_score := trust_score context - anomaly_penalty a1,
                                    behavior_normal := False\<rparr>
                       else context\<lparr>trust_score :=
                              max 0 (trust_score context -
                                     trust_decay_rate a1 *
                                       (total_seconds (now_decay - auth_time context) / 60))\<rparr>);
                    a2 = a1\<lparr>auth_contexts := (auth_contexts a1)(dev \<mapsto> context')\<rparr>;
                    trusted = is_trusted context' now_trust 70
                in if \<not> trusted then (False, incr_trust_violations a2) else (True, a2)))"

text \<open>
  \<^verbatim>\<open>refresh_token\<close>. \<open>now_trust\<close> is the reading of the clock in \<^verbatim>\<open>is_trusted\<close>,
  \<open>now_auth\<close> the one that becomes the new \<^verbatim>\<open>auth_time\<close>. Nothing catches an exception
  of \<^verbatim>\<open>jwt.encode\<close> here: it leaves the method after the context was updated.
\<close>

definition refresh_token :: "libraries \<Rightarrow> ZeroTrustAuthenticator \<Rightarrow> string \<Rightarrow> datetime \<Rightarrow> datetime \<Rightarrow> (error + string option) \<times> ZeroTrustAuthenticator" where
  "refresh_token libs a dev now_trust now_auth =
     (case auth_contexts a dev of
        None \<Rightarrow> (Inr None, a)
      | Some context \<Rightarrow>
          if \<not> is_trusted context now_trust 70 then (Inr None, a)
          else
            (let context' = context\<lparr>auth_time := now_auth,
                                     expires_at := now_auth + token_lifetime a\<rparr>;
                 a1 = a\<lparr>auth_contexts := (auth_contexts a)(dev \<mapsto> context')\<rparr>;
                 payload =
                   \<lparr>claim_device_id = dev, claim_device_type = device_type context',
                    claim_auth_method = auth_method context',
                    claim_iat = timestamp libs now_auth,
                    claim_exp = timestamp libs (expires_at context'),
                    claim_trust_score = trust_score context'\<rparr>
             in case jwt_encode libs payload (jwt_secret a1) of
                  None \<Rightarrow> (Inl UncaughtException, a1)
                | Some token \<Rightarrow> (Inr (Some token), incr_token_refreshes a1)))"

text \<open>\<^verbatim>\<open>revoke_authentication\<close>\<close>

definition revoke_authentication :: "ZeroTrustAuthenticator \<Rightarrow> string \<Rightarrow> ZeroTrustAuthenticator" where
  "revoke_authentication a dev = a\<lparr>auth_contexts := (auth_contexts a)(dev := None)\<rparr>"

text \<open>\<^verbatim>\<open>get_trust_score\<close>\<close>

definition get_trust_score :: "ZeroTrustAuthenticator \<Rightarrow> string \<Rightarrow> real option" where
  "get_trust_score a dev = map_option trust_score (auth_contexts a dev)"

section \<open>Driving the operations\<close>

text \<open>
  A run of \<^verbatim>\<open>continuous_authentication_check\<close> calls for one device, each with its
  behaviour signal and its three readings of the clock, and nothing else in between.
  It returns the verdicts in order and the final state.
\<close>

fun continuous_checks :: "ZeroTrustAuthenticator \<Rightarrow> string \<Rightarrow> ((string \<rightharpoonup> real) \<times> datetime \<times> datetime \<times> datetime) list \<Rightarrow> bool list \<times> ZeroTrustAuthenticator" where
  "continuous_checks a dev [] = ([], a)"
| "continuous_checks a dev ((behavior_data, now_entry, now_decay, now_trust) # rest) =
     (let (trusted, a1) =
            continuous_authentication_check a dev behavior_data now_entry now_decay now_trust;
          (results, a2) = continuous_checks a1 dev rest
      in (trusted # results, a2))"

subsection \<open>Concrete scenarios\<close>

text \<open>
  A manager with two trusted cameras, an untrusted plug, a gateway and a quarantined
  device, under the default policies.
\<close>

definition example_manager :: MicroSegmentationManager where
  "example_manager =
     quarantine_device
       (assign_device_zone
         (assign_device_zone
           (assign_device_zone
             (assign_device_zone
               (assign_device_zone new_manager ''cam_01'' IOT_TRUSTED)
               ''cam_02'' IOT_TRUSTED)
             ''plug_02'' IOT_UNTRUSTED)
           ''gw'' CLOUD_GATEWAY)
         ''bad_01'' IOT_UNTRUSTED)
       ''bad_01''"

text \<open>A permissive rule for the quarantine zone, one priority step below the default denies.\<close>

definition rogue_allow_policy :: NetworkPolicy where
  "rogue_allow_policy =
     \<lparr>name = ''allow_quarantine_to_gateway'',
      source_zone = IOT_QUARANTINE, dest_zone = CLOUD_GATEWAY,
      allowed_protocols = [''*''], allowed_ports = [0],
      action = ''allow'', priority = 299, enabled = True\<rparr>"

text \<open>
  Stand-ins for the libraries in the scenarios: the encoder joins the key and the device
  id; the decoder reports one token as expired, gives for the token that the encoder
  makes for "cam_01" under the key the payload of an authentication at time 0, and
  reports every other token as invalid; every PEM text parses to a certificate valid
  from 0 to 1000 s, no file can be read, and timestamps are whole seconds.
\<close>

definition stub_libraries :: libraries where
  "stub_libraries =
     \<lparr>jwt_encode = (\<lambda>payload key. Some (key @ ''.'' @ claim_device_id payload)),
      jwt_decode = (\<lambda>token key now.
         if token = ''expired.token'' then ExpiredSignatureError
         else if token = key @ ''.cam_01''
              then Decoded \<lparr>claim_device_id = ''cam_01'', claim_device_type = ''camera'',
                            claim_auth_method = ''jwt'', claim_iat = 0, claim_exp = 300,
                            claim_trust_score = 100\<rparr>
              else InvalidTokenError),
      load_pem_x509_certificate =
        (\<lambda>pem. Some \<lparr>not_valid_before = 0, not_valid_after = 1000000000\<rparr>),
      read_file = (\<lambda>path. None),
      timestamp = (\<lambda>t. t div 1000000)\<rparr>"

text \<open>
  The authenticator that \<^verbatim>\<open>ZeroTrustAuthenticator(jwt_secret="s3cret")\<close> builds: five
  minutes of token lifetime, no CA certificate.
\<close>

definition example_authenticator :: ZeroTrustAuthenticator where
  "example_authenticator =
     \<lparr>jwt_secret = ''s3cret'',
      token_lifetime = 300000000,
      ca_cert = None,
      auth_contexts = Map.empty,
      trust_decay_rate = 0.1,
      anomaly_penalty = 20,
      auth_metrics = \<lparr>auth_attempts = 0, auth_success = 0, auth_failures = 0,
                       token_refreshes = 0, trust_violations = 0,
                       mtls_verifications = 0, continuous_auth_checks = 0\<rparr>\<rparr>"

text \<open>The context that authenticating "cam_01" at time 0 creates.\<close>

definition fresh_context :: AuthContext where
  "fresh_context =
     \<lparr>device_id = ''cam_01'', device_type = ''camera'', auth_method = ''jwt'',
      auth_time = 0, expires_at = 300000000,
      trust_score = 100, behavior_normal = True,
      location_verified = True, certificate_valid = True\<rparr>"

text \<open>"cam_01" authenticated with a device key at time 0.\<close>

definition authenticated_example :: ZeroTrustAuthenticator where
  "authenticated_example =
     snd (authenticate_device stub_libraries example_authenticator ''cam_01'' ''camera''
            [''device_key'' \<mapsto> ''k1''] ''jwt'' 0 0)"

text \<open>A behaviour signal above the anomaly threshold.\<close>

definition anomalous :: "string \<rightharpoonup> real" where
  "anomalous = [''anomaly_score'' \<mapsto> 0.9]"

text \<open>Anomalous signals one second apart, starting one second after authentication.\<close>

definition two_anomalies :: "((string \<rightharpoonup> real) \<times> datetime \<times> datetime \<times> datetime) list" where
  "two_anomalies =
     [(anomalous, 1000000, 1000000, 1000000), (anomalous, 2000000, 2000000, 2000000)]"

definition six_anomalies :: "((string \<rightharpoonup> real) \<times> datetime \<times> datetime \<times> datetime) list" where
  "six_anomalies =
     two_anomalies @
     [(anomalous, 3000000, 3000000, 3000000), (anomalous, 4000000, 4000000, 4000000),
      (anomalous, 5000000, 5000000, 5000000), (anomalous, 6000000, 6000000, 6000000)]"

text \<open>"cam_01" after two anomalous checks: the session is live and the score is 60.\<close>

definition violated_example :: ZeroTrustAuthenticator where
  "violated_example = snd (continuous_checks authenticated_example ''cam_01'' two_anomalies)"

section \<open>Properties of the segmentation engine\<close>

subsection \<open>The policy set\<close>

lemma new_manager_policies: "policies new_manager = initialize_default_policies []"
  by (simp add: new_manager_def)

lemma add_policies_append: "policies (foldl add_policy m extra) = policies m @ extra"
  by (induction extra arbitrary: m) (simp_all add: add_policy_def)

lemma evaluate_traffic_keeps_policies:
  "policies (snd (evaluate_traffic m src_device dst_device protocol port)) = policies m \<and>
   device_zones (snd (evaluate_traffic m src_device dst_device protocol port)) = device_zones m"
  by (simp add: evaluate_traffic_def Let_def split: option.splits list.splits)

text \<open>Filtering commutes with the stable sort, so the matches can be collected first.\<close>

lemma matching_policies_sort_filter:
  "matching_policies ps src_zone dst_zone protocol port =
     sort_key (\<lambda>x. - priority x)
       (filter (\<lambda>p. enabled p \<and> matches p src_zone dst_zone protocol port) ps)"
  by (simp add: matching_policies_def filter_sort)

lemma matching_policies_append:
  "matching_policies (ps @ qs) src_zone dst_zone protocol port =
     sort_key (\<lambda>x. - priority x)
       (filter (\<lambda>p. enabled p \<and> matches p src_zone dst_zone protocol port) ps @
        filter (\<lambda>p. enabled p \<and> matches p src_zone dst_zone protocol port) qs)"
  by (simp add: matching_policies_sort_filter)

text \<open>
  What the default policies say about a flow out of quarantine: the deny rule of the
  destination zone and nothing else, whatever the protocol and the port.
\<close>

lemma default_quarantine_matches:
  "filter (\<lambda>p. enabled p \<and> matches p IOT_QUARANTINE dst_zone protocol port)
     (initialize_default_policies []) =
   (if dst_zone = IOT_QUARANTINE then [] else [quarantine_deny_policy dst_zone])"
  by (cases dst_zone)
     (simp_all add: initialize_default_policies_def all_zones_def matches_def
        management_policy_def lateral_deny_policy_def quarantine_deny_policy_def)

text \<open>
  And about a flow between the two IoT zones: the lateral-movement deny when the zones
  differ, no rule at all inside one zone.
\<close>

lemma default_iot_matches:
  assumes "src_zone \<in> {IOT_TRUSTED, IOT_UNTRUSTED}"
      and "dst_zone \<in> {IOT_TRUSTED, IOT_UNTRUSTED}"
  shows "filter (\<lambda>p. enabled p \<and> matches p src_zone dst_zone protocol port)
           (initialize_default_policies []) =
         (if src_zone = dst_zone then [] else [lateral_deny_policy src_zone dst_zone])"
proof -
  have "(src_zone = IOT_TRUSTED \<or> src_zone = IOT_UNTRUSTED) \<and>
        (dst_zone = IOT_TRUSTED \<or> dst_zone = IOT_UNTRUSTED)"
    using assms by simp
  then show ?thesis
    by (elim conjE disjE)
       (simp_all add: initialize_default_policies_def all_zones_def matches_def
          management_policy_def lateral_deny_policy_def quarantine_deny_policy_def)
qed

lemma default_gateway_ingress:
  "matching_policies (initialize_default_policies []) IOT_TRUSTED CLOUD_GATEWAY ''mqtt'' 1883 =
     [\<lparr>name = ''iot_trusted_to_gateway'',
       source_zone = IOT_TRUSTED, dest_zone = CLOUD_GATEWAY,
       allowed_protocols = [''mqtt'', ''coap'', ''https''],
       allowed_ports = [1883, 5683, 8883, 443],
       action = ''allow'', priority = 100, enabled = True\<rparr>]"
  by (simp add: matching_policies_sort_filter initialize_default_policies_def all_zones_def
        matches_def management_policy_def lateral_deny_policy_def quarantine_deny_policy_def)

subsection \<open>The three exits of \<^verbatim>\<open>evaluate_traffic\<close>\<close>

lemma evaluate_traffic_matched:
  assumes "device_zones m src_device = Some src_zone"
      and "device_zones m dst_device = Some dst_zone"
      and "matching_policies (policies m) src_zone dst_zone protocol port = policy # rest"
  shows "evaluate_traffic m src_device dst_device protocol port =
     (action policy = ''allow'',
      m\<lparr>metrics :=
           (if action policy = ''allow'' then incr_packets_allowed (metrics m)
            else if src_zone \<in> set [IOT_TRUSTED, IOT_UNTRUSTED] \<and>
                    dst_zone \<in> set [IOT_TRUSTED, IOT_UNTRUSTED]
                 then incr_lateral_movement_blocked (incr_packets_denied (metrics m))
                 else incr_packets_denied (metrics m)),
         traffic_log := traffic_log m @
           [\<lparr>log_src_device = src_device, log_dst_device = dst_device,
             log_src_zone = zone_value src_zone, log_dst_zone = zone_value dst_zone,
             log_protocol = protocol, log_port = port,
             log_policy = name policy, log_action = action policy,
             log_allowed = (action policy = ''allow'')\<rparr>]\<rparr>)"
  using assms by (simp add: evaluate_traffic_def Let_def)

lemma evaluate_traffic_unmatched:
  assumes "device_zones m src_device = Some src_zone"
      and "device_zones m dst_device = Some dst_zone"
      and "matching_policies (policies m) src_zone dst_zone protocol port = []"
  shows "evaluate_traffic m src_device dst_device protocol port =
     (False, m\<lparr>metrics := incr_zone_violations (incr_packets_denied (metrics m))\<rparr>)"
  using assms by (simp add: evaluate_traffic_def)

text \<open>
  Under the default policies alone every flow between the two different IoT zones is
  denied by its lateral-movement rule and counted once as lateral movement.
\<close>

lemma default_lateral_movement_denied:
  assumes "policies m = initialize_default_policies []"
      and "device_zones m src_device = Some src_zone"
      and "device_zones m dst_device = Some dst_zone"
      and "src_zone \<in> {IOT_TRUSTED, IOT_UNTRUSTED}"
      and "dst_zone \<in> {IOT_TRUSTED, IOT_UNTRUSTED}"
      and "src_zone \<noteq> dst_zone"
  shows "fst (evaluate_traffic m src_device dst_device protocol port) = False \<and>
         lateral_movement_blocked
           (metrics (snd (evaluate_traffic m src_device dst_device protocol port))) =
         lateral_movement_blocked (metrics m) + 1"
proof -
  have "matching_policies (policies m) src_zone dst_zone protocol port =
          [lateral_deny_policy src_zone dst_zone]"
    using assms(1,6)
    by (simp add: matching_policies_sort_filter default_iot_matches [OF assms(4,5)])
  from evaluate_traffic_matched [OF assms(2,3) this] assms(4,5)
  show ?thesis
    by (simp add: lateral_deny_policy_def incr_lateral_movement_blocked_def
          incr_packets_denied_def)
qed

subsection \<open>The example manager\<close>

lemma example_manager_zones:
  "device_zones example_manager ''cam_01'' = Some IOT_TRUSTED"
  "device_zones example_manager ''cam_02'' = Some IOT_TRUSTED"
  "device_zones example_manager ''plug_02'' = Some IOT_UNTRUSTED"
  "device_zones example_manager ''gw'' = Some CLOUD_GATEWAY"
  "device_zones example_manager ''bad_01'' = Some IOT_QUARANTINE"
  "device_zones example_manager ''ghost'' = None"
  by (simp_all add: example_manager_def quarantine_device_def assign_device_zone_def new_manager_def)

lemma example_manager_state:
  "policies example_manager = initialize_default_policies []"
  "traffic_log example_manager = []"
  "metrics example_manager =
     \<lparr>packets_allowed = 0, packets_denied = 0, zone_violations = 0, lateral_movement_blocked = 0\<rparr>"
  by (simp_all add: example_manager_def quarantine_device_def assign_device_zone_def new_manager_def)

lemma example_same_zone_flow:
  "evaluate_traffic example_manager ''cam_01'' ''cam_02'' ''mqtt'' 1883 =
     (False, example_manager\<lparr>metrics :=
        incr_zone_violations (incr_packets_denied (metrics example_manager))\<rparr>)"
  by (rule evaluate_traffic_unmatched [where src_zone = IOT_TRUSTED and dst_zone = IOT_TRUSTED])
     (simp_all add: example_manager_zones example_manager_state
        matching_policies_sort_filter default_iot_matches)

lemma default_lateral_flow:
  "matching_policies (initialize_default_policies []) IOT_TRUSTED IOT_UNTRUSTED ''mqtt'' 1883 =
     [lateral_deny_policy IOT_TRUSTED IOT_UNTRUSTED]"
  by (simp add: matching_policies_sort_filter default_iot_matches)

section \<open>Claims about the segmentation engine\<close>

text \<open>
  Claim C1. Under the default policy set, and under every policy set obtained from it by
  adding allow policies of priority strictly below 300, \<^verbatim>\<open>evaluate_traffic\<close> denies every
  flow whose source device is in \<^verbatim>\<open>iot_quarantine\<close> and whose destination device is in
  any other zone, for every protocol and port. \<open>add_policy\<close> appends
  (\<open>add_policies_append\<close>), so such a policy set is the default list followed by the
  added policies; the deny rule of the destination zone matches every protocol and port
  and is the first of the matches by priority.
\<close>

theorem quarantine_always_denied:
  assumes "policies m = initialize_default_policies [] @ extra"
      and "\<forall>p \<in> set extra. action p = ''allow'' \<and> priority p < 300"
      and "device_zones m src_device = Some IOT_QUARANTINE"
      and "device_zones m dst_device = Some dst_zone"
      and "dst_zone \<noteq> IOT_QUARANTINE"
  shows "fst (evaluate_traffic m src_device dst_device protocol port) = False"
proof -
  let ?key = "\<lambda>x. - priority x"
  let ?added = "filter (\<lambda>p. enabled p \<and> matches p IOT_QUARANTINE dst_zone protocol port) extra"
  have "matching_policies (policies m) IOT_QUARANTINE dst_zone protocol port =
          sort_key ?key (quarantine_deny_policy dst_zone # ?added)"
    using assms(1,5) by (simp add: matching_policies_append default_quarantine_matches)
  also have "\<dots> = insort_key ?key (quarantine_deny_policy dst_zone) (sort_key ?key ?added)"
    by simp
  also have "\<dots> = quarantine_deny_policy dst_zone # sort_key ?key ?added"
  proof (rule insort_is_Cons)
    show "\<forall>x\<in>set (sort_key ?key ?added). ?key (quarantine_deny_policy dst_zone) \<le> ?key x"
      using assms(2) by (auto simp add: quarantine_deny_policy_def)
  qed
  finally have "matching_policies (policies m) IOT_QUARANTINE dst_zone protocol port =
                  quarantine_deny_policy dst_zone # sort_key ?key ?added" .
  from evaluate_traffic_matched [OF assms(3,4) this]
  show ?thesis
    by (simp add: quarantine_deny_policy_def)
qed

text \<open>
  The quarantined device of the example cannot reach the gateway although a rule of
  priority 299 that allows exactly this flow was added.
\<close>

theorem quarantine_always_denied_witness:
  "matches rogue_allow_policy IOT_QUARANTINE CLOUD_GATEWAY ''mqtt'' 1883 \<and>
   priority rogue_allow_policy < 300 \<and>
   device_zones (add_policy example_manager rogue_allow_policy) ''bad_01'' = Some IOT_QUARANTINE \<and>
   fst (evaluate_traffic (add_policy example_manager rogue_allow_policy)
          ''bad_01'' ''gw'' ''mqtt'' 1883) = False"
proof -
  let ?m = "add_policy example_manager rogue_allow_policy"
  have h1: "policies ?m = initialize_default_policies [] @ [rogue_allow_policy]"
    by (simp add: add_policy_def example_manager_state)
  have h2: "\<forall>p \<in> set [rogue_allow_policy]. action p = ''allow'' \<and> priority p < 300"
    by (simp add: rogue_allow_policy_def)
  have h3: "device_zones ?m ''bad_01'' = Some IOT_QUARANTINE"
    by (simp add: add_policy_def example_manager_zones)
  have h4: "device_zones ?m ''gw'' = Some CLOUD_GATEWAY"
    by (simp add: add_policy_def example_manager_zones)
  have h5: "CLOUD_GATEWAY \<noteq> IOT_QUARANTINE"
    by simp
  from quarantine_always_denied [OF h1 h2 h3 h4 h5] h3
  show ?thesis
    by (simp add: rogue_allow_policy_def matches_def)
qed

text \<open>
  Claim C2, as the code has it. When at least one of the two devices has no zone
  assignment, \<^verbatim>\<open>evaluate_traffic\<close> denies, and the only change of state is that
  \<^verbatim>\<open>packets_denied\<close>, the counter of the policy denials, goes up by one: the manager has
  no counter of configuration faults, and nothing is written to the traffic log.
\<close>

theorem evaluate_traffic_unresolved_zone:
  assumes "device_zones m src_device = None \<or> device_zones m dst_device = None"
  shows "evaluate_traffic m src_device dst_device protocol port =
           (False, m\<lparr>metrics := (metrics m)\<lparr>packets_denied := packets_denied (metrics m) + 1\<rparr>\<rparr>)"
  using assms
  by (auto simp add: evaluate_traffic_def incr_packets_denied_def split: option.splits)

theorem evaluate_traffic_unresolved_zone_witness:
  "device_zones new_manager ''cam_01'' = None \<and>
   evaluate_traffic new_manager ''cam_01'' ''gw'' ''mqtt'' 1883 =
     (False, new_manager\<lparr>metrics := (metrics new_manager)\<lparr>packets_denied := 1\<rparr>\<rparr>)"
proof -
  have h: "device_zones new_manager ''cam_01'' = None \<or> device_zones new_manager ''gw'' = None"
    by (simp add: new_manager_def)
  from evaluate_traffic_unresolved_zone [OF h, of "''mqtt''" 1883]
  show ?thesis
    by (simp add: new_manager_def)
qed

text \<open>
  Claim C2 as stated fails: a flow from a device without a zone is denied, and the call
  adds one to \<^verbatim>\<open>packets_denied\<close> and leaves the three other counters as they were.
\<close>

theorem unresolved_zone_counted_in_packets_denied:
  "device_zones example_manager ''ghost'' = None \<and>
   fst (evaluate_traffic example_manager ''ghost'' ''gw'' ''mqtt'' 1883) = False \<and>
   packets_denied (metrics (snd (evaluate_traffic example_manager ''ghost'' ''gw'' ''mqtt'' 1883))) =
     packets_denied (metrics example_manager) + 1 \<and>
   packets_allowed (metrics (snd (evaluate_traffic example_manager ''ghost'' ''gw'' ''mqtt'' 1883))) =
     packets_allowed (metrics example_manager) \<and>
   zone_violations (metrics (snd (evaluate_traffic example_manager ''ghost'' ''gw'' ''mqtt'' 1883))) =
     zone_violations (metrics example_manager) \<and>
   lateral_movement_blocked (metrics (snd (evaluate_traffic example_manager ''ghost'' ''gw'' ''mqtt'' 1883))) =
     lateral_movement_blocked (metrics example_manager)"
  by (simp add: evaluate_traffic_def example_manager_zones incr_packets_denied_def)

text \<open>
  Claim C5, as the code has it. When the verdict is deny and both devices are in
  \<^verbatim>\<open>iot_trusted\<close> or \<^verbatim>\<open>iot_untrusted\<close>, \<^verbatim>\<open>lateral_movement_blocked\<close> goes up by exactly one
  if the deny is the action of a matching policy; when no enabled policy matches (the
  default deny) \<^verbatim>\<open>lateral_movement_blocked\<close> keeps its value and \<^verbatim>\<open>zone_violations\<close> goes
  up by one instead.
\<close>

theorem lateral_movement_counted_on_policy_deny:
  assumes "device_zones m src_device = Some src_zone"
      and "device_zones m dst_device = Some dst_zone"
      and "src_zone \<in> {IOT_TRUSTED, IOT_UNTRUSTED}"
      and "dst_zone \<in> {IOT_TRUSTED, IOT_UNTRUSTED}"
      and "evaluate_traffic m src_device dst_device protocol port = (False, m')"
  shows "lateral_movement_blocked (metrics m') =
           lateral_movement_blocked (metrics m) +
           (if matching_policies (policies m) src_zone dst_zone protocol port = [] then 0 else 1) \<and>
         zone_violations (metrics m') =
           zone_violations (metrics m) +
           (if matching_policies (policies m) src_zone dst_zone protocol port = [] then 1 else 0)"
proof (cases "matching_policies (policies m) src_zone dst_zone protocol port")
  case Nil
  have "evaluate_traffic m src_device dst_device protocol port =
          (False, m\<lparr>metrics := incr_zone_violations (incr_packets_denied (metrics m))\<rparr>)"
    using assms(1,2) Nil by (rule evaluate_traffic_unmatched)
  with assms(5) have "m' = m\<lparr>metrics := incr_zone_violations (incr_packets_denied (metrics m))\<rparr>"
    by simp
  with Nil show ?thesis
    by (simp add: incr_zone_violations_def incr_packets_denied_def)
next
  case (Cons policy rest)
  note eq = evaluate_traffic_matched [OF assms(1,2) Cons]
  from eq assms(5) have deny: "action policy \<noteq> ''allow''" by simp
  from eq assms(5) have m': "m' = snd (evaluate_traffic m src_device dst_device protocol port)"
    by simp
  show ?thesis
    unfolding m' eq using Cons deny assms(3,4)
    by (simp add: incr_packets_denied_def incr_lateral_movement_blocked_def)
qed

text \<open>The trusted camera talks to the untrusted plug: the default deny rule counts it.\<close>

theorem lateral_movement_counted_on_policy_deny_witness:
  "fst (evaluate_traffic example_manager ''cam_01'' ''plug_02'' ''mqtt'' 1883) = False \<and>
   lateral_movement_blocked
     (metrics (snd (evaluate_traffic example_manager ''cam_01'' ''plug_02'' ''mqtt'' 1883))) = 1 \<and>
   zone_violations
     (metrics (snd (evaluate_traffic example_manager ''cam_01'' ''plug_02'' ''mqtt'' 1883))) = 0"
proof -
  let ?r = "evaluate_traffic example_manager ''cam_01'' ''plug_02'' ''mqtt'' 1883"
  have h1: "device_zones example_manager ''cam_01'' = Some IOT_TRUSTED"
    and h2: "device_zones example_manager ''plug_02'' = Some IOT_UNTRUSTED"
    by (simp_all add: example_manager_zones)
  have h3: "IOT_TRUSTED \<in> {IOT_TRUSTED, IOT_UNTRUSTED}"
    and h4: "IOT_UNTRUSTED \<in> {IOT_TRUSTED, IOT_UNTRUSTED}"
    by simp_all
  have flow: "matching_policies (policies example_manager) IOT_TRUSTED IOT_UNTRUSTED ''mqtt'' 1883 =
      [lateral_deny_policy IOT_TRUSTED IOT_UNTRUSTED]"
    by (simp add: example_manager_state default_lateral_flow)
  have deny: "fst ?r = False"
    using evaluate_traffic_matched [OF h1 h2 flow]
    by (simp add: lateral_deny_policy_def)
  then have h5: "?r = (False, snd ?r)"
    by (simp add: prod_eq_iff)
  from lateral_movement_counted_on_policy_deny [OF h1 h2 h3 h4 h5] deny
  show ?thesis
    by (simp add: default_lateral_flow example_manager_state)
qed

text \<open>
  Claim C5 as stated fails on the default-deny path: between two devices of
  \<^verbatim>\<open>iot_trusted\<close> no default policy matches, the flow is denied, and
  \<^verbatim>\<open>lateral_movement_blocked\<close> keeps its value.
\<close>

theorem default_deny_not_counted_as_lateral_movement:
  "device_zones example_manager ''cam_01'' = Some IOT_TRUSTED \<and>
   device_zones example_manager ''cam_02'' = Some IOT_TRUSTED \<and>
   fst (evaluate_traffic example_manager ''cam_01'' ''cam_02'' ''mqtt'' 1883) = False \<and>
   lateral_movement_blocked
     (metrics (snd (evaluate_traffic example_manager ''cam_01'' ''cam_02'' ''mqtt'' 1883))) =
   lateral_movement_blocked (metrics example_manager)"
  by (simp add: example_same_zone_flow example_manager_zones
        incr_zone_violations_def incr_packets_denied_def)

text \<open>
  Claim C9, as the code has it. When both devices have a zone, exactly one of
  \<^verbatim>\<open>packets_allowed\<close> and \<^verbatim>\<open>packets_denied\<close> goes up by one, the one of the verdict, on
  the policy path and on the default-deny path alike. One entry is appended to the
  traffic log when an enabled policy matched, carrying the flow, the name and action of
  the policy of highest priority and the verdict; when no policy matched, the traffic
  log is left as it was.
\<close>

theorem evaluate_traffic_counts_and_logs:
  assumes "device_zones m src_device = Some src_zone"
      and "device_zones m dst_device = Some dst_zone"
      and "evaluate_traffic m src_device dst_device protocol port = (allowed, m')"
  shows "packets_allowed (metrics m') = packets_allowed (metrics m) + (if allowed then 1 else 0) \<and>
         packets_denied (metrics m') = packets_denied (metrics m) + (if allowed then 0 else 1) \<and>
         traffic_log m' = traffic_log m @
           (case matching_policies (policies m) src_zone dst_zone protocol port of
              [] \<Rightarrow> []
            | policy # _ \<Rightarrow>
                [\<lparr>log_src_device = src_device, log_dst_device = dst_device,
                  log_src_zone = zone_value src_zone, log_dst_zone = zone_value dst_zone,
                  log_protocol = protocol, log_port = port,
                  log_policy = name policy, log_action = action policy,
                  log_allowed = allowed\<rparr>])"
proof (cases "matching_policies (policies m) src_zone dst_zone protocol port")
  case Nil
  have "evaluate_traffic m src_device dst_device protocol port =
          (False, m\<lparr>metrics := incr_zone_violations (incr_packets_denied (metrics m))\<rparr>)"
    using assms(1,2) Nil by (rule evaluate_traffic_unmatched)
  with assms(3) have "allowed = False"
    and "m' = m\<lparr>metrics := incr_zone_violations (incr_packets_denied (metrics m))\<rparr>"
    by simp_all
  with Nil show ?thesis
    by (simp add: incr_zone_violations_def incr_packets_denied_def)
next
  case (Cons policy rest)
  note eq = evaluate_traffic_matched [OF assms(1,2) Cons]
  from eq assms(3) have verdict: "allowed = (action policy = ''allow'')" by simp
  from eq assms(3) have m': "m' = snd (evaluate_traffic m src_device dst_device protocol port)"
    by simp
  show ?thesis
    unfolding m' eq using Cons verdict
    by (simp add: incr_packets_allowed_def incr_packets_denied_def
          incr_lateral_movement_blocked_def)
qed

text \<open>The trusted camera publishes to the gateway: allowed, counted and logged once.\<close>

theorem evaluate_traffic_counts_and_logs_witness:
  "fst (evaluate_traffic example_manager ''cam_01'' ''gw'' ''mqtt'' 1883) = True \<and>
   packets_allowed (metrics (snd (evaluate_traffic example_manager ''cam_01'' ''gw'' ''mqtt'' 1883))) = 1 \<and>
   packets_denied (metrics (snd (evaluate_traffic example_manager ''cam_01'' ''gw'' ''mqtt'' 1883))) = 0 \<and>
   traffic_log (snd (evaluate_traffic example_manager ''cam_01'' ''gw'' ''mqtt'' 1883)) =
     [\<lparr>log_src_device = ''cam_01'', log_dst_device = ''gw'',
       log_src_zone = ''iot_trusted'', log_dst_zone = ''cloud_gateway'',
       log_protocol = ''mqtt'', log_port = 1883,
       log_policy = ''iot_trusted_to_gateway'', log_action = ''allow'',
       log_allowed = True\<rparr>]"
proof -
  let ?r = "evaluate_traffic example_manager ''cam_01'' ''gw'' ''mqtt'' 1883"
  have h1: "device_zones example_manager ''cam_01'' = Some IOT_TRUSTED"
    and h2: "device_zones example_manager ''gw'' = Some CLOUD_GATEWAY"
    by (simp_all add: example_manager_zones)
  have ingress: "matching_policies (policies example_manager) IOT_TRUSTED CLOUD_GATEWAY ''mqtt'' 1883 =
      [\<lparr>name = ''iot_trusted_to_gateway'',
        source_zone = IOT_TRUSTED, dest_zone = CLOUD_GATEWAY,
        allowed_protocols = [''mqtt'', ''coap'', ''https''],
        allowed_ports = [1883, 5683, 8883, 443],
        action = ''allow'', priority = 100, enabled = True\<rparr>]"
    by (simp add: example_manager_state default_gateway_ingress)
  have allow: "fst ?r = True"
    using evaluate_traffic_matched [OF h1 h2 ingress] by simp
  then have h3: "?r = (True, snd ?r)"
    by (simp add: prod_eq_iff)
  from evaluate_traffic_counts_and_logs [OF h1 h2 h3] allow
  show ?thesis
    by (simp add: default_gateway_ingress example_manager_state)
qed

text \<open>
  Claim C9 as stated fails on the default-deny path: the flow between the two trusted
  cameras is evaluated with both zones known, and the traffic log gets no entry.
\<close>

theorem default_deny_not_logged:
  "device_zones example_manager ''cam_01'' = Some IOT_TRUSTED \<and>
   device_zones example_manager ''cam_02'' = Some IOT_TRUSTED \<and>
   fst (evaluate_traffic example_manager ''cam_01'' ''cam_02'' ''mqtt'' 1883) = False \<and>
   traffic_log (snd (evaluate_traffic example_manager ''cam_01'' ''cam_02'' ''mqtt'' 1883)) =
     traffic_log example_manager"
  by (simp add: example_same_zone_flow example_manager_zones)

section \<open>Properties of the authenticator\<close>

subsection \<open>The CA certificate\<close>

lemma new_authenticator_without_ca:
  assumes "new_authenticator libs token_hex jwt_secret_arg token_lifetime_minutes None = Inr a"
  shows "ca_cert a = None"
  using assms by (auto simp add: new_authenticator_def Let_def)

lemma authenticate_device_keeps_ca:
  "ca_cert (snd (authenticate_device libs a dev dev_type credentials method now_cert now_auth)) =
     ca_cert a"
  by (simp add: authenticate_device_def Let_def verify_mtls_certificate_def
        incr_auth_attempts_def incr_auth_failures_def incr_auth_success_def
        incr_mtls_verifications_def
      split: option.splits prod.splits)

lemma continuous_authentication_check_keeps_ca:
  "ca_cert (snd (continuous_authentication_check a dev behavior_data now_entry now_decay now_trust)) =
     ca_cert a"
  by (simp add: continuous_authentication_check_def Let_def
        incr_continuous_auth_checks_def incr_trust_violations_def
      split: option.splits)

lemma refresh_token_keeps_ca:
  "ca_cert (snd (refresh_token libs a dev now_trust now_auth)) = ca_cert a"
  by (simp add: refresh_token_def Let_def incr_token_refreshes_def split: option.splits)

lemma revoke_authentication_keeps_ca:
  "ca_cert (revoke_authentication a dev) = ca_cert a"
  by (simp add: revoke_authentication_def)

subsection \<open>One anomalous check\<close>

text \<open>
  A check with an anomaly score above 0.5 on a context that is live at entry: the
  penalty is subtracted as it is, \<^verbatim>\<open>behavior_normal\<close> becomes false, so the device is
  reported untrusted and the violation is counted, whatever the clock says afterwards.
\<close>

lemma anomaly_check_step:
  assumes "auth_contexts a dev = Some ctx"
      and "dict_get behavior_data ''anomaly_score'' 0 > 0.5"
      and "now_entry < expires_at ctx"
  shows "continuous_authentication_check a dev behavior_data now_entry now_decay now_trust =
           (False,
            incr_trust_violations
              ((incr_continuous_auth_checks a)
                 \<lparr>auth_contexts := (auth_contexts a)(dev \<mapsto>
                    ctx\<lparr>trust_score := trust_score ctx - anomaly_penalty a,
                         behavior_normal := False\<rparr>)\<rparr>))"
  using assms
  by (simp add: continuous_authentication_check_def Let_def is_expired_def is_trusted_def
        incr_continuous_auth_checks_def)

text \<open>
  So a run of such checks lowers the score by one penalty per check, with no lower
  bound, and every verdict of the run is "untrusted".
\<close>

lemma anomaly_checks_trust_score:
  assumes "auth_contexts a dev = Some ctx"
      and "\<forall>(behavior_data, now_entry, now_decay, now_trust) \<in> set calls.
             dict_get behavior_data ''anomaly_score'' 0 > 0.5 \<and>
             now_entry < expires_at ctx"
  shows "get_trust_score (snd (continuous_checks a dev calls)) dev =
           Some (trust_score ctx - real (length calls) * anomaly_penalty a) \<and>
         fst (continuous_checks a dev calls) = replicate (length calls) False"
  using assms
proof (induction calls arbitrary: a ctx)
  case Nil
  then show ?case by (simp add: get_trust_score_def)
next
  case (Cons call calls)
  obtain behavior_data now_entry now_decay now_trust
    where call: "call = (behavior_data, now_entry, now_decay, now_trust)"
    by (cases call) auto
  from Cons.prems(2) call
  have score: "dict_get behavior_data ''anomaly_score'' 0 > 0.5"
    and entry: "now_entry < expires_at ctx"
    by auto
  let ?ctx' = "ctx\<lparr>trust_score := trust_score ctx - anomaly_penalty a,
                    behavior_normal := False\<rparr>"
  let ?a' = "incr_trust_violations
              ((incr_continuous_auth_checks a)
                 \<lparr>auth_contexts := (auth_contexts a)(dev \<mapsto> ?ctx')\<rparr>)"
  have step: "continuous_authentication_check a dev behavior_data now_entry now_decay now_trust =
                (False, ?a')"
    using Cons.prems(1) score entry by (rule anomaly_check_step)
  have stored: "auth_contexts ?a' dev = Some ?ctx'"
    by (simp add: incr_trust_violations_def incr_continuous_auth_checks_def)
  have later: "\<forall>(behavior_data, now_entry, now_decay, now_trust) \<in> set calls.
             dict_get behavior_data ''anomaly_score'' 0 > 0.5 \<and>
             now_entry < expires_at ?ctx'"
    using Cons.prems(2) by auto
  have penalty: "anomaly_penalty ?a' = anomaly_penalty a"
    by (simp add: incr_trust_violations_def incr_continuous_auth_checks_def)
  from Cons.IH [OF stored later] penalty
  show ?case
    by (simp add: call step split_def algebra_simps)
qed

subsection \<open>The example authenticator\<close>

lemma new_example_authenticator:
  "new_authenticator stub_libraries token_hex (Some ''s3cret'') 5 None = Inr example_authenticator"
  by (simp add: new_authenticator_def example_authenticator_def minutes_def)

lemma authenticated_example_result:
  "authenticate_device stub_libraries example_authenticator ''cam_01'' ''camera''
     [''device_key'' \<mapsto> ''k1''] ''jwt'' 0 0 =
   (Some ''s3cret.cam_01'',
    example_authenticator
      \<lparr>auth_contexts := [''cam_01'' \<mapsto> fresh_context],
       auth_metrics := (auth_metrics example_authenticator)
                         \<lparr>auth_attempts := 1, auth_success := 1\<rparr>\<rparr>)"
  by (simp add: authenticate_device_def example_authenticator_def stub_libraries_def
        verify_jwt_credentials_def incr_auth_attempts_def incr_auth_success_def Let_def
        fresh_context_def)

lemma authenticated_example_eq:
  "authenticated_example =
     example_authenticator
       \<lparr>auth_contexts := [''cam_01'' \<mapsto> fresh_context],
        auth_metrics := (auth_metrics example_authenticator)
                          \<lparr>auth_attempts := 1, auth_success := 1\<rparr>\<rparr>"
  by (simp add: authenticated_example_def authenticated_example_result)

lemma anomalous_score: "dict_get anomalous ''anomaly_score'' 0 > 0.5"
  by (simp add: anomalous_def dict_get_def)

lemma violated_example_eq:
  "violated_example =
     example_authenticator
       \<lparr>auth_contexts :=
          [''cam_01'' \<mapsto> fresh_context\<lparr>trust_score := 60, behavior_normal := False\<rparr>],
        auth_metrics := (auth_metrics example_authenticator)
                          \<lparr>auth_attempts := 1, auth_success := 1,
                           trust_violations := 2, continuous_auth_checks := 2\<rparr>\<rparr>"
proof -
  let ?ctx1 = "fresh_context\<lparr>trust_score := 80, behavior_normal := False\<rparr>"
  let ?a1 = "example_authenticator
       \<lparr>auth_contexts := [''cam_01'' \<mapsto> ?ctx1],
        auth_metrics := (auth_metrics example_authenticator)
                          \<lparr>auth_attempts := 1, auth_success := 1,
                           trust_violations := 1, continuous_auth_checks := 1\<rparr>\<rparr>"
  have stored: "auth_contexts authenticated_example ''cam_01'' = Some fresh_context"
    by (simp add: authenticated_example_eq)
  have live: "1000000 < expires_at fresh_context"
    by (simp add: fresh_context_def)
  have first: "continuous_authentication_check authenticated_example ''cam_01'' anomalous
                 1000000 1000000 1000000 = (False, ?a1)"
    unfolding anomaly_check_step [OF stored anomalous_score live]
    by (simp add: authenticated_example_eq example_authenticator_def
          fresh_context_def incr_trust_violations_def incr_continuous_auth_checks_def)
  have stored1: "auth_contexts ?a1 ''cam_01'' = Some ?ctx1"
    by simp
  have live1: "2000000 < expires_at ?ctx1"
    by (simp add: fresh_context_def)
  have second: "continuous_authentication_check ?a1 ''cam_01'' anomalous
                  2000000 2000000 2000000 =
                (False, example_authenticator
       \<lparr>auth_contexts :=
          [''cam_01'' \<mapsto> fresh_context\<lparr>trust_score := 60, behavior_normal := False\<rparr>],
        auth_metrics := (auth_metrics example_authenticator)
                          \<lparr>auth_attempts := 1, auth_success := 1,
                           trust_violations := 2, continuous_auth_checks := 2\<rparr>\<rparr>)"
    unfolding anomaly_check_step [OF stored1 anomalous_score live1]
    by (simp add: example_authenticator_def
          fresh_context_def incr_trust_violations_def incr_continuous_auth_checks_def)
  show ?thesis
    by (simp add: violated_example_def two_anomalies_def first second)
qed

section \<open>Claims about the authenticator\<close>

text \<open>
  Claim C3, as the code has it. \<^verbatim>\<open>verify_token\<close> returns the claim set exactly when
  \<^verbatim>\<open>jwt.decode\<close> yields it. It returns \<^verbatim>\<open>None\<close> exactly when \<^verbatim>\<open>jwt.decode\<close> rejects the
  token, as expired or as otherwise invalid: the result is the same value for the two
  failure classes, and the caller cannot tell them apart from it.
\<close>

theorem verify_token_results:
  "(verify_token libs a token now = Inr (Some payload) \<longleftrightarrow>
      jwt_decode libs token (jwt_secret a) now = Decoded payload) \<and>
   (verify_token libs a token now = Inr None \<longleftrightarrow>
      jwt_decode libs token (jwt_secret a) now = ExpiredSignatureError \<or>
      jwt_decode libs token (jwt_secret a) now = InvalidTokenError)"
  by (cases "jwt_decode libs token (jwt_secret a) now") (simp_all add: verify_token_def)

text \<open>
  The token issued to the camera decodes to its claim set; the expired token and a
  forged one both give \<^verbatim>\<open>None\<close>.
\<close>

theorem verify_token_results_witness:
  "fst (authenticate_device stub_libraries example_authenticator ''cam_01'' ''camera''
          [''device_key'' \<mapsto> ''k1''] ''jwt'' 0 0) = Some ''s3cret.cam_01'' \<and>
   verify_token stub_libraries example_authenticator ''s3cret.cam_01'' 1000000 =
     Inr (Some \<lparr>claim_device_id = ''cam_01'', claim_device_type = ''camera'',
                 claim_auth_method = ''jwt'', claim_iat = 0, claim_exp = 300,
                 claim_trust_score = 100\<rparr>) \<and>
   verify_token stub_libraries example_authenticator ''expired.token'' 400000000 = Inr None \<and>
   verify_token stub_libraries example_authenticator ''forged.token'' 1000000 = Inr None"
proof -
  let ?claims = "\<lparr>claim_device_id = ''cam_01'', claim_device_type = ''camera'',
                  claim_auth_method = ''jwt'', claim_iat = 0, claim_exp = 300,
                  claim_trust_score = 100\<rparr>"
  have h0: "jwt_decode stub_libraries ''s3cret.cam_01'' (jwt_secret example_authenticator) 1000000 =
              Decoded ?claims"
    by (simp add: stub_libraries_def example_authenticator_def)
  have h1: "jwt_decode stub_libraries ''expired.token'' (jwt_secret example_authenticator) 400000000 =
              ExpiredSignatureError"
    by (simp add: stub_libraries_def)
  have h2: "jwt_decode stub_libraries ''forged.token'' (jwt_secret example_authenticator) 1000000 =
              InvalidTokenError"
    by (simp add: stub_libraries_def example_authenticator_def)
  have decoded: "verify_token stub_libraries example_authenticator ''s3cret.cam_01'' 1000000 =
                   Inr (Some ?claims)"
    using verify_token_results
            [of stub_libraries example_authenticator "''s3cret.cam_01''" 1000000 ?claims] h0
    by blast
  have expired: "verify_token stub_libraries example_authenticator ''expired.token'' 400000000 =
                   Inr None"
    using verify_token_results
            [of stub_libraries example_authenticator "''expired.token''" 400000000] h1
    by blast
  have forged: "verify_token stub_libraries example_authenticator ''forged.token'' 1000000 =
                  Inr None"
    using verify_token_results
            [of stub_libraries example_authenticator "''forged.token''" 1000000] h2
    by blast
  from decoded expired forged show ?thesis
    by (simp add: authenticated_example_result)
qed

text \<open>
  Claim C3 as stated fails: with a decoder that classifies one token as expired and
  another as invalid, \<^verbatim>\<open>verify_token\<close> gives one and the same result for both.
\<close>

theorem expired_and_invalid_token_same_result:
  "jwt_decode stub_libraries ''expired.token'' (jwt_secret example_authenticator) 400000000 =
     ExpiredSignatureError \<and>
   jwt_decode stub_libraries ''forged.token'' (jwt_secret example_authenticator) 400000000 =
     InvalidTokenError \<and>
   verify_token stub_libraries example_authenticator ''expired.token'' 400000000 =
     verify_token stub_libraries example_authenticator ''forged.token'' 400000000"
  by (simp add: verify_token_def stub_libraries_def example_authenticator_def)

text \<open>
  Claim C4 fails in the code. A device is authenticated at time 0 with five minutes of
  lifetime and then checked six times, one second apart, with an anomaly score of 0.9.
  The claim gives \<open>max 0 (100 - 20 * 6) = 0\<close> for the stored score; the anomaly branch
  subtracts the penalty without the clamp that the decay branch applies, and the
  stored score is -20.
\<close>

theorem anomaly_penalty_not_clamped:
  "get_trust_score (snd (continuous_checks authenticated_example ''cam_01'' six_anomalies)) ''cam_01'' =
     Some (- 20)"
proof -
  have "auth_contexts authenticated_example ''cam_01'' = Some fresh_context"
    by (simp add: authenticated_example_eq)
  moreover have "\<forall>(behavior_data, now_entry, now_decay, now_trust) \<in> set six_anomalies.
             dict_get behavior_data ''anomaly_score'' 0 > 0.5 \<and>
             now_entry < expires_at fresh_context"
    by (simp add: six_anomalies_def two_anomalies_def anomalous_def fresh_context_def dict_get_def)
  ultimately show ?thesis
    using anomaly_checks_trust_score
            [of authenticated_example "''cam_01''" fresh_context six_anomalies]
    by (simp add: six_anomalies_def two_anomalies_def fresh_context_def
          authenticated_example_eq example_authenticator_def)
qed

text \<open>
  Claim C6. When the device has a context, \<^verbatim>\<open>refresh_token\<close> returns \<^verbatim>\<open>None\<close> and changes
  nothing whenever the context is not trusted at the threshold 70, in particular
  whenever its trust score is below 70, expired or not. When it returns a token, the
  stored context is the old one with \<^verbatim>\<open>auth_time\<close> set to the current time and
  \<^verbatim>\<open>expires_at\<close> to that time plus the token lifetime; the trust score and every other
  field of the context are the old ones, the contexts of the other devices are
  untouched, and \<^verbatim>\<open>token_refreshes\<close> is the only counter that moves.
\<close>

theorem refresh_token_trusted_only:
  assumes "auth_contexts a dev = Some ctx"
  shows "(\<not> is_trusted ctx now_trust 70 \<longrightarrow>
            refresh_token libs a dev now_trust now_auth = (Inr None, a)) \<and>
         (trust_score ctx < 70 \<longrightarrow>
            refresh_token libs a dev now_trust now_auth = (Inr None, a)) \<and>
         (\<forall>token a'. refresh_token libs a dev now_trust now_auth = (Inr (Some token), a') \<longrightarrow>
            a' = incr_token_refreshes
                   (a\<lparr>auth_contexts := (auth_contexts a)(dev \<mapsto>
                        ctx\<lparr>auth_time := now_auth,
                             expires_at := now_auth + token_lifetime a\<rparr>)\<rparr>))"
  using assms
  by (auto simp add: refresh_token_def Let_def is_trusted_def split: option.splits if_splits)

text \<open>
  The camera with score 60 is refused three seconds into a session of five minutes;
  the freshly authenticated camera gets a token, and its context is the fresh one with
  the two times moved.
\<close>

theorem refresh_token_trusted_only_witness:
  "trust_score (fresh_context\<lparr>trust_score := 60, behavior_normal := False\<rparr>) < 70 \<and>
   \<not> is_expired (fresh_context\<lparr>trust_score := 60, behavior_normal := False\<rparr>) 3000000 \<and>
   refresh_token stub_libraries violated_example ''cam_01'' 3000000 3000000 =
     (Inr None, violated_example) \<and>
   fst (refresh_token stub_libraries authenticated_example ''cam_01'' 1000000 1000000) =
     Inr (Some ''s3cret.cam_01'') \<and>
   auth_contexts (snd (refresh_token stub_libraries authenticated_example ''cam_01'' 1000000 1000000))
     ''cam_01'' =
     Some (fresh_context\<lparr>auth_time := 1000000, expires_at := 301000000\<rparr>)"
proof -
  let ?low = "fresh_context\<lparr>trust_score := 60, behavior_normal := False\<rparr>"
  let ?r = "refresh_token stub_libraries authenticated_example ''cam_01'' 1000000 1000000"
  have h1: "auth_contexts violated_example ''cam_01'' = Some ?low"
    by (simp add: violated_example_eq)
  have low: "trust_score ?low < 70" "\<not> is_trusted ?low 3000000 70"
    "\<not> is_expired ?low 3000000"
    by (simp_all add: is_trusted_def is_expired_def fresh_context_def)
  have refused: "refresh_token stub_libraries violated_example ''cam_01'' 3000000 3000000 =
                   (Inr None, violated_example)"
    using refresh_token_trusted_only [OF h1, of 3000000 stub_libraries 3000000] low
    by simp
  have h2: "auth_contexts authenticated_example ''cam_01'' = Some fresh_context"
    by (simp add: authenticated_example_eq)
  have token: "fst ?r = Inr (Some ''s3cret.cam_01'')"
    by (simp add: refresh_token_def Let_def is_trusted_def is_expired_def
          authenticated_example_eq example_authenticator_def fresh_context_def
          stub_libraries_def)
  then have "?r = (Inr (Some ''s3cret.cam_01''), snd ?r)"
    by (simp add: prod_eq_iff)
  with refresh_token_trusted_only [OF h2, of 1000000 stub_libraries 1000000]
  have "snd ?r = incr_token_refreshes
                   (authenticated_example\<lparr>auth_contexts :=
                      (auth_contexts authenticated_example)(''cam_01'' \<mapsto>
                        fresh_context\<lparr>auth_time := 1000000,
                          expires_at := 1000000 + token_lifetime authenticated_example\<rparr>)\<rparr>)"
    by blast
  then have "auth_contexts (snd ?r) ''cam_01'' =
               Some (fresh_context\<lparr>auth_time := 1000000, expires_at := 301000000\<rparr>)"
    by (simp add: incr_token_refreshes_def authenticated_example_eq example_authenticator_def)
  with low refused token show ?thesis
    by simp
qed

text \<open>
  Claim C7. Whatever the authenticator held for the device before (no context, a
  degraded one, an expired one), a call of \<^verbatim>\<open>authenticate_device\<close> that returns a token
  leaves under the device's key a context with trust score 100, \<^verbatim>\<open>behavior_normal\<close>
  true and \<^verbatim>\<open>expires_at\<close> equal to \<^verbatim>\<open>auth_time\<close> plus the token lifetime, \<^verbatim>\<open>auth_time\<close>
  being the time of the call.
\<close>

theorem authenticate_device_fresh_context:
  assumes "authenticate_device libs a dev dev_type credentials method now_cert now_auth =
             (Some token, a')"
  shows "auth_contexts a' dev =
           Some \<lparr>device_id = dev, device_type = dev_type, auth_method = method,
                 auth_time = now_auth, expires_at = now_auth + token_lifetime a,
                 trust_score = 100, behavior_normal = True,
                 location_verified = True, certificate_valid = True\<rparr>"
  using assms
  by (auto simp add: authenticate_device_def Let_def verify_mtls_certificate_def
        incr_auth_attempts_def incr_auth_failures_def incr_auth_success_def
        incr_mtls_verifications_def
      split: if_splits option.splits prod.splits)

text \<open>
  The camera whose score fell to 60 authenticates again, with an OAuth token, three
  seconds after the first time: the stored context is a fresh one.
\<close>

theorem authenticate_device_fresh_context_witness:
  "get_trust_score violated_example ''cam_01'' = Some 60 \<and>
   auth_contexts
     (snd (authenticate_device stub_libraries violated_example ''cam_01'' ''camera''
             [''token'' \<mapsto> ''abc''] ''oauth'' 3000000 3000000)) ''cam_01'' =
     Some \<lparr>device_id = ''cam_01'', device_type = ''camera'', auth_method = ''oauth'',
           auth_time = 3000000, expires_at = 303000000,
           trust_score = 100, behavior_normal = True,
           location_verified = True, certificate_valid = True\<rparr>"
proof -
  let ?r = "authenticate_device stub_libraries violated_example ''cam_01'' ''camera''
              [''token'' \<mapsto> ''abc''] ''oauth'' 3000000 3000000"
  have "fst ?r = Some ''s3cret.cam_01''"
    by (simp add: authenticate_device_def Let_def verify_oauth_token_def
          violated_example_eq example_authenticator_def stub_libraries_def
          incr_auth_attempts_def incr_auth_success_def)
  then have h: "?r = (Some ''s3cret.cam_01'', snd ?r)"
    by (simp add: prod_eq_iff)
  from authenticate_device_fresh_context [OF h]
  show ?thesis
    by (simp add: get_trust_score_def violated_example_eq example_authenticator_def
          fresh_context_def)
qed

text \<open>
  Claim C8, as the code has it. A call of \<^verbatim>\<open>continuous_authentication_check\<close> that
  reports the device untrusted adds exactly one to \<^verbatim>\<open>trust_violations\<close> when the device
  has a context that is not expired at the entry check, that is, when the verdict comes
  from the trust evaluation at the end; when the device has no context or the context
  is expired at entry, the call returns untrusted before that, having counted the check
  and nothing else, and \<^verbatim>\<open>trust_violations\<close> keeps its value. A call that reports the
  device trusted leaves the counter as it is.
\<close>

theorem trust_violations_counted_past_entry:
  assumes "continuous_authentication_check a dev behavior_data now_entry now_decay now_trust =
             (trusted, a')"
  shows "trust_violations (auth_metrics a') =
           trust_violations (auth_metrics a) +
           (if trusted then 0
            else case auth_contexts a dev of
                   None \<Rightarrow> 0
                 | Some ctx \<Rightarrow> if is_expired ctx now_entry then 0 else 1) \<and>
         ((case auth_contexts a dev of
             None \<Rightarrow> True
           | Some ctx \<Rightarrow> is_expired ctx now_entry) \<longrightarrow>
          \<not> trusted \<and> a' = incr_continuous_auth_checks a)"
  using assms
  by (auto simp add: continuous_authentication_check_def Let_def
        incr_continuous_auth_checks_def incr_trust_violations_def
      split: option.splits if_splits)

text \<open>
  An anomalous signal one second into the session: untrusted, and counted once. A check
  a hundred seconds after the session ended: untrusted, and only the check is counted.
\<close>

theorem trust_violations_counted_past_entry_witness:
  "trust_violations (auth_metrics authenticated_example) = 0 \<and>
   fst (continuous_authentication_check authenticated_example ''cam_01'' anomalous
          1000000 1000000 1000000) = False \<and>
   trust_violations
     (auth_metrics (snd (continuous_authentication_check authenticated_example ''cam_01'' anomalous
                           1000000 1000000 1000000))) = 1 \<and>
   is_expired fresh_context 400000000 \<and>
   continuous_authentication_check authenticated_example ''cam_01'' anomalous
     400000000 400000000 400000000 =
     (False, incr_continuous_auth_checks authenticated_example)"
proof -
  let ?r = "continuous_authentication_check authenticated_example ''cam_01'' anomalous
              1000000 1000000 1000000"
  let ?late = "continuous_authentication_check authenticated_example ''cam_01'' anomalous
                 400000000 400000000 400000000"
  have stored: "auth_contexts authenticated_example ''cam_01'' = Some fresh_context"
    by (simp add: authenticated_example_eq)
  have live: "1000000 < expires_at fresh_context"
    by (simp add: fresh_context_def)
  have untrusted: "fst ?r = False"
    by (simp add: anomaly_check_step [OF stored anomalous_score live])
  then have h: "?r = (False, snd ?r)"
    by (simp add: prod_eq_iff)
  have over: "is_expired fresh_context 400000000"
    by (simp add: is_expired_def fresh_context_def)
  have "?late = (fst ?late, snd ?late)"
    by simp
  from trust_violations_counted_past_entry [OF this] stored over
  have late: "?late = (False, incr_continuous_auth_checks authenticated_example)"
    by (simp add: prod_eq_iff)
  from trust_violations_counted_past_entry [OF h] untrusted live over late
  show ?thesis
    by (simp add: authenticated_example_eq example_authenticator_def is_expired_def)
qed

text \<open>
  Claim C8 as stated fails for an expired context: the camera authenticated at time 0
  is checked when its five minutes are over, the check reports it untrusted, and
  \<^verbatim>\<open>trust_violations\<close> is what it was.
\<close>

theorem expired_check_not_counted:
  "auth_contexts authenticated_example ''cam_01'' = Some fresh_context \<and>
   is_expired fresh_context 300000000 \<and>
   fst (continuous_authentication_check authenticated_example ''cam_01'' anomalous
          300000000 300000000 300000000) = False \<and>
   trust_violations
     (auth_metrics (snd (continuous_authentication_check authenticated_example ''cam_01'' anomalous
                           300000000 300000000 300000000))) =
   trust_violations (auth_metrics authenticated_example)"
  by (simp add: continuous_authentication_check_def Let_def is_expired_def
        authenticated_example_eq fresh_context_def incr_continuous_auth_checks_def)

text \<open>
  Claim C10. An authenticator built without a CA certificate path has \<^verbatim>\<open>ca_cert = None\<close>
  (\<open>new_authenticator_without_ca\<close>) and no operation assigns the field afterwards. With
  \<^verbatim>\<open>ca_cert = None\<close> every \<^verbatim>\<open>authenticate_device\<close> call with the method "mtls" returns
  \<^verbatim>\<open>None\<close>, whatever the credentials hold: the call counts one attempt and one failure
  and leaves the contexts as they were.
\<close>

theorem mtls_fails_without_ca:
  assumes "ca_cert a = None"
  shows "authenticate_device libs a dev dev_type credentials ''mtls'' now_cert now_auth =
           (None, incr_auth_failures (incr_auth_attempts a)) \<and>
         auth_contexts (incr_auth_failures (incr_auth_attempts a)) = auth_contexts a"
  using assms
  by (simp add: authenticate_device_def Let_def verify_mtls_certificate_def
        incr_auth_attempts_def incr_auth_failures_def split: option.splits)

text \<open>
  The example authenticator has no CA certificate; a certificate that parses and is
  inside its validity window does not authenticate the camera.
\<close>

theorem mtls_fails_without_ca_witness:
  "new_authenticator stub_libraries ''f00d'' (Some ''s3cret'') 5 None = Inr example_authenticator \<and>
   load_pem_x509_certificate stub_libraries ''PEM'' =
     Some \<lparr>not_valid_before = 0, not_valid_after = 1000000000\<rparr> \<and>
   fst (authenticate_device stub_libraries example_authenticator ''cam_01'' ''camera''
          [''certificate'' \<mapsto> ''PEM''] ''mtls'' 5000000 5000000) = None \<and>
   auth_contexts
     (snd (authenticate_device stub_libraries example_authenticator ''cam_01'' ''camera''
             [''certificate'' \<mapsto> ''PEM''] ''mtls'' 5000000 5000000)) ''cam_01'' = None"
proof -
  have built: "new_authenticator stub_libraries ''f00d'' (Some ''s3cret'') 5 None =
                 Inr example_authenticator"
    by (rule new_example_authenticator)
  then have h: "ca_cert example_authenticator = None"
    by (rule new_authenticator_without_ca)
  from mtls_fails_without_ca [OF h, of stub_libraries "''cam_01''" "''camera''"
         "[''certificate'' \<mapsto> ''PEM'']" 5000000 5000000] built
  show ?thesis
    by (simp add: stub_libraries_def example_authenticator_def)
qed

end
